theory Spec2Isabelle
  imports Complex_Main "HOL-Library.AList" "HOL-Library.Sublist" "HOL-Library.Multiset"
begin

section \<open>The math quiz bot: data model\<close>

text \<open>
  The development embeds \<^verbatim>\<open>math_quiz_bot.py\<close>. The bot runs on a single-threaded
  cooperative scheduler: a coroutine runs without interruption between two \<^verbatim>\<open>await\<close>s.
  Every handler is modelled as a function from the registry \<^verbatim>\<open>quizzes\<close> (and the data
  of the incoming update) to the new registry and the list of messages it sends, in the
  order of sending: a handler that awaits the sending of its own message is taken to run
  to its end before another one starts, and the quiz loop, which waits for events
  between its steps, is cut into segments. A Python exception is a value \<open>Inl e\<close>.

  Times are the floats of \<^verbatim>\<open>time.time()\<close>; they are modelled as exact rationals.
  The concrete inputs evaluated below use values whose float arithmetic is exact.
\<close>

datatype py_error = KeyError | ValueError | IndexError | AttributeError

subsection \<open>Game constants\<close>

definition DEFAULT_TIMEOUT_PER_Q :: int where
  "DEFAULT_TIMEOUT_PER_Q = 20"

definition POINTS_CORRECT :: int where
  "POINTS_CORRECT = 100"

definition POINTS_PER_SECOND_SPEED_BONUS_MAX :: int where
  "POINTS_PER_SECOND_SPEED_BONUS_MAX = 50"

definition STREAK_BONUS_PER_LEVEL :: int where
  "STREAK_BONUS_PER_LEVEL = 10"

text \<open>Only the number of cheering quotes matters here: one of them is drawn at random.\<close>

definition CHEERING_QUOTES_len :: nat where
  "CHEERING_QUOTES_len = 6"

subsection \<open>Game state\<close>

text \<open>
  \<^verbatim>\<open>quiz_data\<close> is a Python dict whose keys appear as the session advances. A key that
  may be missing, or may hold \<^verbatim>\<open>None\<close>, is an option field; \<^verbatim>\<open>quiz.get(k)\<close> reads
  the field, and \<^verbatim>\<open>quiz[k]\<close> raises \<open>KeyError\<close> where it is \<open>None\<close>.
  The dict \<^verbatim>\<open>scores\<close> keeps its insertion order, which the leaderboard's stable sort
  observes, so it is an association list with the keys in insertion order.
\<close>

text \<open>A Python \<^verbatim>\<open>str\<close> that the bot reads: its Unicode code points.\<close>

type_synonym pystr = "nat list"

record player =
  points :: int
  streak :: int
  username :: string

record question =
  qtext :: string
  answer :: int
  qtype :: string
  difficulty :: pystr

record config =
  cfg_difficulty :: "pystr option"
  num_questions :: "int option"

type_synonym scores_dict = "(int \<times> player) list"

record quiz =
  status :: string
  host_id :: int
  config :: config
  active :: bool
  setup_message_id :: "int option"
  questions_data :: "question list option"
  current_q_index :: "int option"
  current_question_details :: "question option"
  q_start_time :: "rat option"
  first_answerer_id :: "int option"
  scores :: "scores_dict option"
  current_question_event :: "bool option"

type_synonym registry = "int \<rightharpoonup> quiz"

text \<open>The messages the bot sends, by what they announce rather than by their markup.\<close>

datatype message =
    AlreadyRunning
  | SetupPrompt string
  | NoQuizToStop
  | StopDenied
  | QuizStopped string
  | CallbackAnswered
  | OnlyHostCanConfigure int
  | ConfigAlreadyComplete
  | SetupCancelled
  | DifficultySet pystr
  | SetupComplete pystr int
  | SpawnQuizLoop int
  | SpawnTimeout int int
  | QuestionPrompt int int string
  | NextQuestionSoon
  | QuizFinished
  | CorrectAnswer string int int int
  | TimesUp int
  | NoScoresRecorded
  | Leaderboard bool "(nat \<times> string \<times> int \<times> int option) list" bool
  | Congratulations string nat

section \<open>Python library functions used by the bot\<close>

subsection \<open>Text\<close>

text \<open>
  A Python \<^verbatim>\<open>str\<close> is a sequence of Unicode code points, here a list of naturals;
  \<open>ascii\<close> turns a literal into one. The texts the bot reads (answers, callback data and
  what it takes from them) are such lists. The names of users and the text of a question
  are only carried into messages, never read, and stay byte strings.

  On the ASCII range the classes of characters are fixed and written out below. Beyond
  it Python asks the Unicode database of the interpreter, which is not part of the
  repository: which code points are whitespace, and which are decimal digits, with their
  value. That database, and the interpreter's limit on the number of digits of an integer
  literal (\<^verbatim>\<open>sys.get_int_max_str_digits()\<close>, 0 for no limit), are the parameter \<open>rt\<close>
  of every function that reads text.
\<close>

definition ascii :: "string \<Rightarrow> pystr" where
  "ascii s = map of_char s"

record runtime =
  uc_isspace :: "nat \<Rightarrow> bool"
  uc_decimal :: "nat \<Rightarrow> nat option"
  int_max_str_digits :: nat

text \<open>\<^verbatim>\<open>Py_UNICODE_ISSPACE\<close> and \<^verbatim>\<open>Py_UNICODE_TODECIMAL\<close>.\<close>

definition py_unicode_isspace :: "runtime \<Rightarrow> nat \<Rightarrow> bool" where
  "py_unicode_isspace rt cp =
     (if cp < 128 then (9 \<le> cp \<and> cp \<le> 13) \<or> (28 \<le> cp \<and> cp \<le> 32)
      else uc_isspace rt cp)"

definition py_unicode_todecimal :: "runtime \<Rightarrow> nat \<Rightarrow> nat option" where
  "py_unicode_todecimal rt cp =
     (if cp < 128 then (if 48 \<le> cp \<and> cp \<le> 57 then Some (cp - 48) else None)
      else uc_decimal rt cp)"

subsection \<open>\<^verbatim>\<open>str.strip\<close>\<close>

text \<open>Without an argument it removes the whitespace at both ends.\<close>

definition strip :: "runtime \<Rightarrow> pystr \<Rightarrow> pystr" where
  "strip rt s =
     rev (dropWhile (py_unicode_isspace rt) (rev (dropWhile (py_unicode_isspace rt) s)))"

subsection \<open>\<^verbatim>\<open>int\<close> on a string\<close>

text \<open>
  \<^verbatim>\<open>int(s)\<close> first turns \<open>s\<close> into ASCII: an ASCII string is taken as it is; in any
  other string a code point below 127 is kept, whitespace becomes a blank, a decimal
  digit becomes its ASCII digit, and the string is cut after a \<^verbatim>\<open>?\<close> put at the first
  code point that is none of these.
\<close>

fun transform_decimal_and_space :: "runtime \<Rightarrow> pystr \<Rightarrow> pystr" where
  "transform_decimal_and_space rt [] = []"
| "transform_decimal_and_space rt (cp # cps) =
     (if cp < 127 then cp # transform_decimal_and_space rt cps
      else if py_unicode_isspace rt cp then 32 # transform_decimal_and_space rt cps
      else (case py_unicode_todecimal rt cp of
              None \<Rightarrow> [63]
            | Some d \<Rightarrow> (48 + d) # transform_decimal_and_space rt cps))"

definition to_ascii :: "runtime \<Rightarrow> pystr \<Rightarrow> pystr" where
  "to_ascii rt s = (if list_all (\<lambda>cp. cp < 128) s then s else transform_decimal_and_space rt s)"

text \<open>
  The ASCII text is then read as a decimal literal: whitespace of C (9 to 13 and 32, not
  28 to 31), an optional sign, digits, where a single underscore may separate two
  digits, and whitespace again up to the end. The scan counts the digits.
\<close>

definition py_isspace :: "nat \<Rightarrow> bool" where
  "py_isspace c = ((9 \<le> c \<and> c \<le> 13) \<or> c = 32)"

definition is_digit :: "nat \<Rightarrow> bool" where
  "is_digit c = (48 \<le> c \<and> c \<le> 57)"

definition digit_val :: "nat \<Rightarrow> int" where
  "digit_val c = int c - 48"

fun after_digit :: "int \<Rightarrow> nat \<Rightarrow> pystr \<Rightarrow> (int \<times> nat) option"
  and need_digit :: "int \<Rightarrow> nat \<Rightarrow> pystr \<Rightarrow> (int \<times> nat) option" where
  "after_digit acc n [] = Some (acc, n)"
| "after_digit acc n (c # cs) =
     (if is_digit c then after_digit (10 * acc + digit_val c) (Suc n) cs
      else if c = 95 then need_digit acc n cs
      else if list_all py_isspace (c # cs) then Some (acc, n)
      else None)"
| "need_digit acc n [] = None"
| "need_digit acc n (c # cs) =
     (if is_digit c then after_digit (10 * acc + digit_val c) (Suc n) cs else None)"

text \<open>
  A literal of more than 640 digits is refused when the limit is set and the digits
  exceed it. \<open>None\<close> is the \<open>ValueError\<close> of \<^verbatim>\<open>int\<close>.
\<close>

definition py_int :: "runtime \<Rightarrow> pystr \<Rightarrow> int option" where
  "py_int rt s =
     (case dropWhile py_isspace (to_ascii rt s) of
        [] \<Rightarrow> None
      | c # cs \<Rightarrow>
          (let (negative, ds) =
                 (if c = 45 then (True, cs) else if c = 43 then (False, cs)
                  else (False, c # cs))
           in case need_digit 0 0 ds of
                None \<Rightarrow> None
              | Some (v, n) \<Rightarrow>
                  if 640 < n \<and> 0 < int_max_str_digits rt \<and> int_max_str_digits rt < n
                  then None
                  else Some (if negative then - v else v)))"

subsection \<open>\<^verbatim>\<open>int\<close> on a float, \<^verbatim>\<open>str.split\<close>, \<^verbatim>\<open>str\<close> on an int\<close>

text \<open>\<^verbatim>\<open>int(x)\<close> truncates towards zero.\<close>

definition py_trunc :: "rat \<Rightarrow> int" where
  "py_trunc x = (if 0 \<le> x then \<lfloor>x\<rfloor> else \<lceil>x\<rceil>)"

fun split_on :: "'a \<Rightarrow> 'a list \<Rightarrow> 'a list list" where
  "split_on sep [] = [[]]"
| "split_on sep (c # cs) =
     (if c = sep then [] # split_on sep cs
      else (case split_on sep cs of
              w # ws \<Rightarrow> (c # w) # ws
            | [] \<Rightarrow> [[c]]))"

fun str_nat :: "nat \<Rightarrow> string" where
  "str_nat n =
     (if n < 10 then [''0123456789'' ! n]
      else str_nat (n div 10) @ [''0123456789'' ! (n mod 10)])"

definition str_int :: "int \<Rightarrow> string" where
  "str_int i = (if i < 0 then CHR ''-'' # str_nat (nat (- i)) else str_nat (nat i))"

subsection \<open>\<^verbatim>\<open>random\<close>\<close>

text \<open>
  The random source is a sequence of draws \<open>rnd 0, rnd 1, \<dots>\<close>; a function that draws
  takes the position of the next draw and the caller advances it.
\<close>

type_synonym rng = "nat \<Rightarrow> nat"

definition randint :: "int \<Rightarrow> int \<Rightarrow> nat \<Rightarrow> int" where
  "randint a b r = a + int (r mod nat (b - a + 1))"

definition choice :: "'a list \<Rightarrow> nat \<Rightarrow> 'a" where
  "choice xs r = xs ! (r mod length xs)"

subsection \<open>\<^verbatim>\<open>sorted(..., key=..., reverse=True)\<close>\<close>

text \<open>
  Python's sort is stable, also with \<^verbatim>\<open>reverse=True\<close>: elements with equal keys
  keep their order. It is the stable sort by the negated key.
\<close>

definition sorted_reverse :: "('a \<Rightarrow> int) \<Rightarrow> 'a list \<Rightarrow> 'a list" where
  "sorted_reverse key xs = sort_key (\<lambda>x. - key x) xs"

section \<open>The bot\<close>

subsection \<open>Question generation\<close>

text \<open>
  \<^verbatim>\<open>generate_math_question\<close> draws three numbers and two operators, five draws from
  position \<open>k\<close> on. \<^verbatim>\<open>eval\<close> of \<^verbatim>\<open>"a op b op c"\<close> computes from left to right and
  cannot fail on such an expression, so the \<^verbatim>\<open>except\<close> branch is never taken.
\<close>

definition apply_op :: "char \<Rightarrow> int \<Rightarrow> int \<Rightarrow> int" where
  "apply_op op a b = (if op = CHR ''+'' then a + b else a - b)"

definition generate_math_question :: "pystr \<Rightarrow> rng \<Rightarrow> nat \<Rightarrow> question" where
  "generate_math_question difficulty_arg rnd k =
     (let (lo, hi) =
            (if difficulty_arg = ascii ''easy'' then (1, 25)
             else if difficulty_arg = ascii ''medium'' then (10, 75)
             else (20, 150));
          nums = map (\<lambda>j. randint lo hi (rnd (k + j))) [0, 1, 2];
          ops = map (\<lambda>j. choice [CHR ''+'', CHR ''-''] (rnd (k + j))) [3, 4];
          expression =
            str_int (nums ! 0) @ '' '' @ [ops ! 0] @ '' '' @ str_int (nums ! 1) @ '' ''
              @ [ops ! 1] @ '' '' @ str_int (nums ! 2);
          answer_v = apply_op (ops ! 1) (apply_op (ops ! 0) (nums ! 0) (nums ! 1)) (nums ! 2)
      in \<lparr>qtext = ''What is '' @ expression @ ''?'', answer = answer_v,
          qtype = ''math_text'', difficulty = difficulty_arg\<rparr>)"

text \<open>\<^verbatim>\<open>[generate_math_question(difficulty) for _ in range(num_questions)]\<close>\<close>

fun generate_questions :: "nat \<Rightarrow> pystr \<Rightarrow> rng \<Rightarrow> nat \<Rightarrow> question list" where
  "generate_questions 0 difficulty_arg rnd k = []"
| "generate_questions (Suc n) difficulty_arg rnd k =
     generate_math_question difficulty_arg rnd k # generate_questions n difficulty_arg rnd (k + 5)"

subsection \<open>The leaderboard\<close>

text \<open>
  \<^verbatim>\<open>not quiz.get("scores")\<close> holds when the key is missing and when the dict is empty.
  The last component of \<open>Leaderboard\<close> says whether the line
  \<^verbatim>\<open>"No scores recorded yet."\<close> was appended to the text.
\<close>

definition no_scores :: "quiz \<Rightarrow> bool" where
  "no_scores q = (case scores q of None \<Rightarrow> True | Some sc \<Rightarrow> sc = [])"

definition leaderboard_rows ::
    "(int \<times> player) list \<Rightarrow> (nat \<times> string \<times> int \<times> int option) list" where
  "leaderboard_rows sorted_scores =
     map (\<lambda>(i, (user_id, data)).
            (i, username data, points data,
             if streak data > 1 then Some (streak data) else None))
         (List.enumerate 1 (take 10 sorted_scores))"

definition show_leaderboard :: "registry \<Rightarrow> int \<Rightarrow> bool \<Rightarrow> bool \<Rightarrow> nat \<Rightarrow> message list" where
  "show_leaderboard quizzes group_id mid_quiz final r =
     (case quizzes group_id of
        None \<Rightarrow> (if final then [NoScoresRecorded] else [])
      | Some q \<Rightarrow>
          (case scores q of
             None \<Rightarrow> (if final then [NoScoresRecorded] else [])
           | Some sc \<Rightarrow>
               if sc = [] then (if final then [NoScoresRecorded] else [])
               else
                 (let sorted_scores = sorted_reverse (\<lambda>item. points (snd item)) sc
                  in [Leaderboard mid_quiz (leaderboard_rows sorted_scores)
                        (sorted_scores = [])]
                     @ (if final \<and> sorted_scores \<noteq> []
                        then [Congratulations (username (snd (hd sorted_scores)))
                                (r mod CHEERING_QUOTES_len)]
                        else []))))"

subsection \<open>Commands\<close>

definition new_quiz :: "int \<Rightarrow> quiz" where
  "new_quiz user_id =
     \<lparr>status = ''configuring'', host_id = user_id,
      config = \<lparr>cfg_difficulty = None, num_questions = None\<rparr>,
      active = False, setup_message_id = None, questions_data = None,
      current_q_index = None, current_question_details = None, q_start_time = None,
      first_answerer_id = None, scores = None, current_question_event = None\<rparr>"

text \<open>\<open>msg_id\<close> is the identifier the platform gives to the setup message.\<close>

definition quiz_command ::
    "registry \<Rightarrow> int \<Rightarrow> int \<Rightarrow> string \<Rightarrow> int \<Rightarrow> registry \<times> message list" where
  "quiz_command quizzes group_id user_id first_name msg_id =
     (if (case quizzes group_id of None \<Rightarrow> False | Some q \<Rightarrow> active q)
      then (quizzes, [AlreadyRunning])
      else (quizzes(group_id \<mapsto> (new_quiz user_id)\<lparr>setup_message_id := Some msg_id\<rparr>),
            [SetupPrompt first_name]))"

text \<open>
  \<^verbatim>\<open>_is_admin\<close>: \<open>member\<close> is what the platform's \<^verbatim>\<open>get_chat_member\<close> gives, the
  member's status, or \<open>None\<close> when the call raises. The platform library's constants
  \<^verbatim>\<open>ADMINISTRATOR\<close> and \<^verbatim>\<open>OWNER\<close> are the statuses \<^verbatim>\<open>administrator\<close> and
  \<^verbatim>\<open>creator\<close>.
\<close>

definition is_admin :: "string \<Rightarrow> string option \<Rightarrow> bool" where
  "is_admin chat_type member =
     (if chat_type = ''private'' then True
      else (case member of
              None \<Rightarrow> False
            | Some st \<Rightarrow> st \<in> set [''administrator'', ''creator'']))"

definition set_event :: "quiz \<Rightarrow> quiz" where
  "set_event q = q\<lparr>current_question_event := map_option (\<lambda>_. True) (current_question_event q)\<rparr>"

definition stop_quiz ::
    "registry \<Rightarrow> int \<Rightarrow> int \<Rightarrow> string \<Rightarrow> string \<Rightarrow> string option \<Rightarrow> nat
      \<Rightarrow> registry \<times> message list" where
  "stop_quiz quizzes group_id user_id first_name chat_type member r =
     (case quizzes group_id of
        None \<Rightarrow> (quizzes, [NoQuizToStop])
      | Some q \<Rightarrow>
          if user_id \<noteq> host_id q \<and> \<not> is_admin chat_type member
          then (quizzes, [StopDenied])
          else
            (let q1 = set_event (q\<lparr>active := False, status := ''stopped''\<rparr>);
                 quizzes1 = quizzes(group_id \<mapsto> q1)
             in (quizzes1(group_id := None),
                 [QuizStopped first_name]
                 @ (if \<not> no_scores q1 then show_leaderboard quizzes1 group_id False True r
                    else []))))"

subsection \<open>The setup wizard\<close>

text \<open>
  \<^verbatim>\<open>_, config_type, config_value = query.data.split(':')\<close> raises \<open>ValueError\<close> unless
  there are exactly three parts; 58 is the colon. \<^verbatim>\<open>int(config_value)\<close> reads the
  value as it is, not stripped. The questions are drawn from position \<open>k\<close> of the random
  source. The branch \<^verbatim>\<open>back\<close> passes the callback query to \<^verbatim>\<open>quiz_command\<close> in the
  place of an update; a callback query has no \<^verbatim>\<open>effective_chat\<close>, so the first line of
  \<^verbatim>\<open>quiz_command\<close> raises \<open>AttributeError\<close>.
\<close>

definition handle_config_callback ::
    "runtime \<Rightarrow> registry \<Rightarrow> int \<Rightarrow> int \<Rightarrow> pystr \<Rightarrow> rng \<Rightarrow> nat
      \<Rightarrow> py_error + registry \<times> message list" where
  "handle_config_callback rt quizzes group_id user_id data rnd k =
     (case quizzes group_id of
        None \<Rightarrow> Inr (quizzes, [CallbackAnswered, OnlyHostCanConfigure user_id])
      | Some q \<Rightarrow>
          if user_id \<noteq> host_id q
          then Inr (quizzes, [CallbackAnswered, OnlyHostCanConfigure user_id])
          else if status q \<noteq> ''configuring''
          then Inr (quizzes, [CallbackAnswered, ConfigAlreadyComplete])
          else
            (case split_on 58 data of
               [_, config_type, config_value] \<Rightarrow>
                 if config_type = ascii ''cancel''
                 then Inr (quizzes(group_id := None), [CallbackAnswered, SetupCancelled])
                 else if config_type = ascii ''difficulty''
                 then Inr (quizzes(group_id \<mapsto>
                             q\<lparr>config := (config q)\<lparr>cfg_difficulty := Some config_value\<rparr>\<rparr>),
                           [CallbackAnswered, DifficultySet config_value])
                 else if config_type = ascii ''questions''
                 then
                   (case py_int rt config_value of
                      None \<Rightarrow> Inl ValueError
                    | Some n \<Rightarrow>
                        (case cfg_difficulty (config q) of
                           None \<Rightarrow> Inl KeyError
                         | Some difficulty_v \<Rightarrow>
                             Inr (quizzes(group_id \<mapsto>
                                    q\<lparr>config := (config q)\<lparr>num_questions := Some n\<rparr>,
                                      status := ''active'',
                                      active := True,
                                      questions_data :=
                                        Some (generate_questions (nat n) difficulty_v rnd k),
                                      current_q_index := Some (- 1),
                                      scores := Some [],
                                      current_question_event := Some False\<rparr>),
                                  [CallbackAnswered, SetupComplete difficulty_v n,
                                   SpawnQuizLoop group_id])))
                 else if config_type = ascii ''back''
                 then Inl AttributeError
                 else Inr (quizzes, [CallbackAnswered])
             | _ \<Rightarrow> Inl ValueError))"

subsection \<open>Answers\<close>

text \<open>Lines 262 to 269: the points of a correct answer.\<close>

definition time_bonus_factor :: "rat \<Rightarrow> rat" where
  "time_bonus_factor time_taken =
     max 0 ((of_int DEFAULT_TIMEOUT_PER_Q - time_taken) / of_int DEFAULT_TIMEOUT_PER_Q)"

definition speed_bonus :: "rat \<Rightarrow> int" where
  "speed_bonus time_taken =
     py_trunc (of_int POINTS_PER_SECOND_SPEED_BONUS_MAX * time_bonus_factor time_taken)"

definition points_earned :: "rat \<Rightarrow> int \<Rightarrow> int" where
  "points_earned time_taken current_streak =
     (let streak_bonus = (current_streak - 1) * STREAK_BONUS_PER_LEVEL
      in POINTS_CORRECT + speed_bonus time_taken + streak_bonus)"

text \<open>
  \<^verbatim>\<open>not quiz.get("q_start_time")\<close> holds for a missing key, for \<^verbatim>\<open>None\<close> and for
  the float zero.
\<close>

definition no_start_time :: "quiz \<Rightarrow> bool" where
  "no_start_time q = (case q_start_time q of None \<Rightarrow> True | Some t \<Rightarrow> t = 0)"

text \<open>
  The handler is registered for text messages that are not commands; \<open>msg_text\<close> is
  \<^verbatim>\<open>update.message.text\<close>, and line 246 reads \<^verbatim>\<open>int(update.message.text.strip())\<close>.
  Past the guard of line 240 the start time is set, so \<open>the\<close> reads it.
  Lines 257 to 270 create the player's entry when it is missing, then set its name,
  streak and points; an existing key keeps its place in the dict and a new one goes to
  the end, which is \<open>AList.update\<close>. Lines 281 to 283 reset the other players' streaks.
\<close>

definition reset_other_streaks :: "int \<Rightarrow> scores_dict \<Rightarrow> scores_dict" where
  "reset_other_streaks user_id sc =
     map (\<lambda>(p_id, pl). if p_id \<noteq> user_id then (p_id, pl\<lparr>streak := 0\<rparr>) else (p_id, pl)) sc"

definition handle_text_answer ::
    "runtime \<Rightarrow> registry \<Rightarrow> int \<Rightarrow> int \<Rightarrow> string \<Rightarrow> pystr \<Rightarrow> rat
      \<Rightarrow> py_error + registry \<times> message list" where
  "handle_text_answer rt quizzes group_id user_id first_name msg_text now =
     (case quizzes group_id of
        None \<Rightarrow> Inr (quizzes, [])
      | Some q \<Rightarrow>
          if \<not> active q \<or> first_answerer_id q \<noteq> None \<or> no_start_time q
          then Inr (quizzes, [])
          else
            (case py_int rt (strip rt msg_text) of
               None \<Rightarrow> Inr (quizzes, [])
             | Some user_answer \<Rightarrow>
                 (case current_question_details q of
                    None \<Rightarrow> Inl KeyError
                  | Some details \<Rightarrow>
                      if user_answer = answer details
                      then
                        (case scores q of
                           None \<Rightarrow> Inl KeyError
                         | Some sc \<Rightarrow>
                             (let time_taken = now - the (q_start_time q);
                                  entry =
                                    (case map_of sc user_id of
                                       None \<Rightarrow> \<lparr>points = 0, streak = 0, username = first_name\<rparr>
                                     | Some pl \<Rightarrow> pl\<lparr>username := first_name\<rparr>);
                                  current_streak = streak entry + 1;
                                  earned = points_earned time_taken current_streak;
                                  entry' = entry\<lparr>streak := current_streak,
                                                 points := points entry + earned\<rparr>;
                                  sc' = reset_other_streaks user_id (AList.update user_id entry' sc)
                              in Inr (quizzes(group_id \<mapsto>
                                        set_event (q\<lparr>first_answerer_id := Some user_id,
                                                     scores := Some sc'\<rparr>)),
                                      [CorrectAnswer first_name (answer details) earned
                                         (points entry')])))
                      else Inr (quizzes, []))))"

subsection \<open>The quiz loop and the timeout\<close>

text \<open>
  \<^verbatim>\<open>run_quiz_loop\<close> suspends at each \<^verbatim>\<open>await\<close>; its iteration \<open>i\<close> is three
  segments: resetting the round and sending the question (lines 298 to 313), starting the
  clock and the timeout task (lines 314 to 320) and, once the event is set, the
  leaderboard between rounds (lines 324 to 331). \<open>loop_finish\<close> is lines 333 to 338.
  \<open>n\<close> is the local \<^verbatim>\<open>num_questions\<close>, read once at line 295. The segments are stated
  on the registry, for a loop whose session is the registered one.
\<close>

definition loop_round_reset ::
    "registry \<Rightarrow> int \<Rightarrow> int \<Rightarrow> nat \<Rightarrow> py_error + registry \<times> message list" where
  "loop_round_reset quizzes group_id n i =
     (case quizzes group_id of
        None \<Rightarrow> Inr (quizzes, [])
      | Some q \<Rightarrow>
          if \<not> active q then Inr (quizzes, [])
          else
            (case questions_data q of
               None \<Rightarrow> Inl KeyError
             | Some qs \<Rightarrow>
                 if i < length qs
                 then Inr (quizzes(group_id \<mapsto>
                             q\<lparr>current_q_index := Some (int i),
                               current_question_details := Some (qs ! i),
                               first_answerer_id := None,
                               q_start_time := None\<rparr>),
                           [QuestionPrompt (int i + 1) n (qtext (qs ! i))])
                 else Inl IndexError))"

definition loop_round_open ::
    "registry \<Rightarrow> int \<Rightarrow> nat \<Rightarrow> rat \<Rightarrow> py_error + registry \<times> message list" where
  "loop_round_open quizzes group_id i now =
     (case quizzes group_id of
        None \<Rightarrow> Inr (quizzes, [])
      | Some q \<Rightarrow>
          (case current_question_event q of
             None \<Rightarrow> Inl KeyError
           | Some _ \<Rightarrow>
               Inr (quizzes(group_id \<mapsto>
                      q\<lparr>q_start_time := Some now, current_question_event := Some False\<rparr>),
                    [SpawnTimeout group_id (int i)])))"

definition loop_after_wait :: "registry \<Rightarrow> int \<Rightarrow> int \<Rightarrow> nat \<Rightarrow> nat \<Rightarrow> message list" where
  "loop_after_wait quizzes group_id n i r =
     (case quizzes group_id of
        None \<Rightarrow> []
      | Some q \<Rightarrow>
          if \<not> active q then []
          else if int i < n - 1
          then show_leaderboard quizzes group_id True False r @ [NextQuestionSoon]
          else [])"

definition loop_finish :: "registry \<Rightarrow> int \<Rightarrow> nat \<Rightarrow> registry \<times> message list" where
  "loop_finish quizzes group_id r =
     (case quizzes group_id of
        None \<Rightarrow> (quizzes, [])
      | Some q \<Rightarrow>
          if active q
          then (let quizzes1 = quizzes(group_id \<mapsto> q\<lparr>active := False\<rparr>)
                in (quizzes1(group_id := None),
                    [QuizFinished] @ show_leaderboard quizzes1 group_id False True r))
          else (quizzes, []))"

text \<open>
  \<^verbatim>\<open>end_question_by_timeout\<close> runs after its sleep of \<^verbatim>\<open>timeout\<close> seconds; the
  function below is what it does when it wakes up.
\<close>

definition reset_all_streaks :: "scores_dict \<Rightarrow> scores_dict" where
  "reset_all_streaks sc = map (\<lambda>(p_id, pl). (p_id, pl\<lparr>streak := 0\<rparr>)) sc"

definition end_question_by_timeout ::
    "registry \<Rightarrow> int \<Rightarrow> int \<Rightarrow> py_error + registry \<times> message list" where
  "end_question_by_timeout quizzes group_id q_index =
     (case quizzes group_id of
        None \<Rightarrow> Inr (quizzes, [])
      | Some q \<Rightarrow>
          if \<not> active q \<or> current_q_index q \<noteq> Some q_index \<or> first_answerer_id q \<noteq> None
          then Inr (quizzes, [])
          else
            (case scores q of
               None \<Rightarrow> Inl KeyError
             | Some sc \<Rightarrow>
                 (case current_question_details q of
                    None \<Rightarrow> Inl KeyError
                  | Some details \<Rightarrow>
                      Inr (quizzes(group_id \<mapsto>
                             set_event (q\<lparr>scores := Some (reset_all_streaks sc)\<rparr>)),
                           [TimesUp (answer details)]))))"

section \<open>Runs of the bot\<close>

text \<open>
  A run is a sequence of handler executions, each on the registry the previous one
  left, with the messages collected in order; it ends at the first exception.
\<close>

type_synonym run = "py_error + registry \<times> message list"

definition then_do :: "run \<Rightarrow> (registry \<Rightarrow> run) \<Rightarrow> run" where
  "then_do r f =
     (case r of
        Inl e \<Rightarrow> Inl e
      | Inr (quizzes, out) \<Rightarrow>
          (case f quizzes of
             Inl e \<Rightarrow> Inl e
           | Inr (quizzes', out') \<Rightarrow> Inr (quizzes', out @ out')))"

definition messages_of :: "run \<Rightarrow> message list" where
  "messages_of r = (case r of Inl e \<Rightarrow> [] | Inr (quizzes, out) \<Rightarrow> out)"

definition registry_of :: "run \<Rightarrow> registry" where
  "registry_of r = (case r of Inl e \<Rightarrow> Map.empty | Inr (quizzes, out) \<Rightarrow> quizzes)"

text \<open>
  The points and the streak of a player in a scores dict; a player without an entry
  has none of either.
\<close>

definition points_of :: "scores_dict \<Rightarrow> int \<Rightarrow> int" where
  "points_of sc user_id = (case map_of sc user_id of None \<Rightarrow> 0 | Some pl \<Rightarrow> points pl)"

definition streak_of :: "scores_dict \<Rightarrow> int \<Rightarrow> int" where
  "streak_of sc user_id = (case map_of sc user_id of None \<Rightarrow> 0 | Some pl \<Rightarrow> streak pl)"

subsection \<open>A session in chat 1, from the empty registry\<close>

text \<open>
  User 10 starts the setup, picks \<^verbatim>\<open>easy\<close> and five questions; the loop starts round 0
  at time 1000. With every random draw 0 the question is \<^verbatim>\<open>What is 1 + 1 + 1?\<close>.
\<close>

text \<open>
  The interpreter of the runs below: the whitespace beyond ASCII of the Unicode database,
  two of its blocks of decimal digits, the Arabic-Indic and the fullwidth ones, and the
  default limit of 4300 digits.
\<close>

definition demo_runtime :: runtime where
  "demo_runtime =
     \<lparr>uc_isspace =
        (\<lambda>cp. cp \<in> set [133, 160, 5760, 8232, 8233, 8239, 8287, 12288]
              \<or> (8192 \<le> cp \<and> cp \<le> 8202)),
      uc_decimal =
        (\<lambda>cp. if 1632 \<le> cp \<and> cp \<le> 1641 then Some (cp - 1632)
              else if 65296 \<le> cp \<and> cp \<le> 65305 then Some (cp - 65296)
              else None),
      int_max_str_digits = 4300\<rparr>"

definition rnd0 :: rng where
  "rnd0 = (\<lambda>_. 0)"

definition run_setup :: run where
  "run_setup = Inr (quiz_command Map.empty 1 10 ''Host'' 500)"

definition run_difficulty :: run where
  "run_difficulty =
     then_do run_setup
       (\<lambda>quizzes. handle_config_callback demo_runtime quizzes 1 10
                    (ascii ''config:difficulty:easy'') rnd0 0)"

definition run_active :: run where
  "run_active =
     then_do run_difficulty
       (\<lambda>quizzes. handle_config_callback demo_runtime quizzes 1 10
                    (ascii ''config:questions:5'') rnd0 0)"

definition run_round0 :: run where
  "run_round0 =
     then_do (then_do run_active (\<lambda>quizzes. loop_round_reset quizzes 1 5 0))
       (\<lambda>quizzes. loop_round_open quizzes 1 0 1000)"

text \<open>The timeout of round 0 fires at time 1020; user 42 answers \<^verbatim>\<open>3\<close> at time 1021.\<close>

definition run_timeout :: run where
  "run_timeout = then_do run_round0 (\<lambda>quizzes. end_question_by_timeout quizzes 1 0)"

definition run_late_answer :: run where
  "run_late_answer =
     then_do run_timeout
       (\<lambda>quizzes. handle_text_answer demo_runtime quizzes 1 42 ''Ann'' (ascii ''3'') 1021)"

text \<open>The states of that session, written out.\<close>

definition easy_question :: question where
  "easy_question =
     \<lparr>qtext = ''What is 1 + 1 + 1?'', answer = 3, qtype = ''math_text'', difficulty = ascii ''easy''\<rparr>"

definition active_quiz :: quiz where
  "active_quiz =
     \<lparr>status = ''active'', host_id = 10,
      config = \<lparr>cfg_difficulty = Some (ascii ''easy''), num_questions = Some 5\<rparr>,
      active = True, setup_message_id = Some 500,
      questions_data = Some (replicate 5 easy_question),
      current_q_index = Some (- 1), current_question_details = None, q_start_time = None,
      first_answerer_id = None, scores = Some [], current_question_event = Some False\<rparr>"

definition round0_quiz :: quiz where
  "round0_quiz =
     active_quiz\<lparr>current_q_index := Some 0, current_question_details := Some easy_question,
       q_start_time := Some 1000\<rparr>"

definition timed_out_quiz :: quiz where
  "timed_out_quiz = round0_quiz\<lparr>current_question_event := Some True\<rparr>"

text \<open>
  A later round of such a session: user 7 has won twice in a row before, and the
  question of round 1 is open since time 2000.
\<close>

definition round1_quiz :: quiz where
  "round1_quiz =
     round0_quiz\<lparr>current_q_index := Some 1, q_start_time := Some 2000,
       scores := Some [(7, \<lparr>points = 250, streak = 2, username = ''Bob''\<rparr>)]\<rparr>"

text \<open>The scores \<^verbatim>\<open>{A: 300, B: 300, C: 100}\<close>, inserted in that order.\<close>

definition podium_scores :: scores_dict where
  "podium_scores =
     [(1, \<lparr>points = 300, streak = 0, username = ''A''\<rparr>),
      (2, \<lparr>points = 300, streak = 1, username = ''B''\<rparr>),
      (3, \<lparr>points = 100, streak = 0, username = ''C''\<rparr>)]"

definition podium_quiz :: quiz where
  "podium_quiz = round0_quiz\<lparr>scores := Some podium_scores\<rparr>"

subsection \<open>The specification's wording\<close>

text \<open>
  The scoring rule as the specification words it, with \<open>round\<close> for the speed bonus
  and the streak before the answer. HOL's \<open>round\<close> rounds a half up and Python's rounds
  it to the even neighbour; at 37.5, where the rule is evaluated below, both give 38.
\<close>

definition spec_points_earned :: "rat \<Rightarrow> int \<Rightarrow> int" where
  "spec_points_earned elapsed s = 100 + round (50 * max 0 ((20 - elapsed) / 20)) + s * 10"

subsection \<open>The scores after a correct answer\<close>

text \<open>
  The scores dict after user \<open>u\<close>, named \<open>name\<close>, gave the first correct answer
  \<open>e\<close> seconds into the round.
\<close>

definition accepted_scores :: "scores_dict \<Rightarrow> int \<Rightarrow> string \<Rightarrow> rat \<Rightarrow> scores_dict" where
  "accepted_scores sc u name e =
     reset_other_streaks u
       (AList.update u
          \<lparr>points = points_of sc u + points_earned e (streak_of sc u + 1),
           streak = streak_of sc u + 1, username = name\<rparr> sc)"

section \<open>Properties\<close>

subsection \<open>Library functions on concrete inputs\<close>

lemma ascii_eq_iff: "ascii a = ascii b \<longleftrightarrow> a = b"
  by (simp add: ascii_def inj_map_eq_map inj_on_def)

lemma split_difficulty_easy:
  "split_on 58 (ascii ''config:difficulty:easy'') =
     [ascii ''config'', ascii ''difficulty'', ascii ''easy'']"
  by (simp add: ascii_def)

lemma split_questions_5:
  "split_on 58 (ascii ''config:questions:5'') =
     [ascii ''config'', ascii ''questions'', ascii ''5'']"
  by (simp add: ascii_def)

lemmas parse_defs =
  py_int_def strip_def to_ascii_def ascii_def py_unicode_isspace_def py_unicode_todecimal_def
  py_isspace_def is_digit_def digit_val_def demo_runtime_def

lemma py_int_3: "py_int demo_runtime (strip demo_runtime (ascii ''3'')) = Some 3"
  by (simp add: parse_defs)

lemma py_int_4: "py_int demo_runtime (strip demo_runtime (ascii ''4'')) = Some 4"
  by (simp add: parse_defs)

lemma py_int_abc: "py_int demo_runtime (strip demo_runtime (ascii ''abc'')) = None"
  by (simp add: parse_defs)

lemma py_int_5: "py_int demo_runtime (ascii ''5'') = Some 5"
  by (simp add: parse_defs)

text \<open>
  Beyond ASCII: a no-break space before \<^verbatim>\<open>3\<close>, and the fullwidth and the Arabic-Indic
  digit three, all read as 3. The separator 28 is whitespace for \<^verbatim>\<open>strip\<close> and not
  for \<^verbatim>\<open>int\<close>.
\<close>

lemma py_int_beyond_ascii:
  "py_int demo_runtime (strip demo_runtime [160, 51]) = Some 3"
  "py_int demo_runtime (strip demo_runtime [65299]) = Some 3"
  "py_int demo_runtime (strip demo_runtime [1635]) = Some 3"
  "py_int demo_runtime [160, 51] = Some 3"
  "py_int demo_runtime (strip demo_runtime [160, 52]) = Some 4"
  by (simp_all add: parse_defs)

lemma py_int_separator:
  "py_int demo_runtime (strip demo_runtime [28, 53]) = Some 5"
  "py_int demo_runtime [28, 53] = None"
  "py_int demo_runtime [32, 53, 32] = Some 5"
  by (simp_all add: parse_defs)

subsection \<open>The session of chat 1\<close>

lemma generate_easy: "generate_math_question (ascii ''easy'') rnd0 k = easy_question"
  by (simp add: generate_math_question_def rnd0_def randint_def choice_def apply_op_def
      str_int_def easy_question_def ascii_eq_iff)

lemma generate_questions_easy: "generate_questions n (ascii ''easy'') rnd0 k = replicate n easy_question"
  by (induction n arbitrary: k) (simp_all add: generate_easy)

lemma run_setup_eq:
  "run_setup = Inr (Map.empty(1 \<mapsto> (new_quiz 10)\<lparr>setup_message_id := Some 500\<rparr>),
                    [SetupPrompt ''Host''])"
  by (simp add: run_setup_def quiz_command_def)

lemma run_difficulty_eq:
  "run_difficulty =
     Inr (Map.empty(1 \<mapsto> (new_quiz 10)\<lparr>setup_message_id := Some 500,
            config := \<lparr>cfg_difficulty = Some (ascii ''easy''), num_questions = None\<rparr>\<rparr>),
          [SetupPrompt ''Host'', CallbackAnswered, DifficultySet (ascii ''easy'')])"
  by (simp add: run_difficulty_def run_setup_eq then_do_def handle_config_callback_def
      new_quiz_def split_difficulty_easy ascii_eq_iff)

lemma run_active_eq:
  "run_active =
     Inr (Map.empty(1 \<mapsto> active_quiz),
          [SetupPrompt ''Host'', CallbackAnswered, DifficultySet (ascii ''easy''),
           CallbackAnswered, SetupComplete (ascii ''easy'') 5, SpawnQuizLoop 1])"
  by (simp add: run_active_def run_difficulty_eq then_do_def handle_config_callback_def
      new_quiz_def split_questions_5 ascii_eq_iff py_int_5 generate_questions_easy
      active_quiz_def)

lemma run_round0_eq:
  "run_round0 =
     Inr (Map.empty(1 \<mapsto> round0_quiz),
          [SetupPrompt ''Host'', CallbackAnswered, DifficultySet (ascii ''easy''),
           CallbackAnswered, SetupComplete (ascii ''easy'') 5, SpawnQuizLoop 1,
           QuestionPrompt 1 5 ''What is 1 + 1 + 1?'', SpawnTimeout 1 0])"
  by (simp add: run_round0_def run_active_eq then_do_def loop_round_reset_def
      loop_round_open_def active_quiz_def round0_quiz_def easy_question_def)

lemma round0_fields:
  "active round0_quiz" "first_answerer_id round0_quiz = None"
  "q_start_time round0_quiz = Some 1000" "current_q_index round0_quiz = Some 0"
  "current_question_details round0_quiz = Some easy_question"
  "scores round0_quiz = Some []" "answer easy_question = 3"
  by (simp_all add: round0_quiz_def active_quiz_def easy_question_def)

subsection \<open>Scoring a correct answer\<close>

lemma points_of_Nil: "points_of [] v = 0"
  by (simp add: points_of_def)

lemma streak_of_Nil: "streak_of [] v = 0"
  by (simp add: streak_of_def)

lemma map_of_reset_other_streaks:
  "map_of (reset_other_streaks u sc) v =
     map_option (\<lambda>pl. if v \<noteq> u then pl\<lparr>streak := 0\<rparr> else pl) (map_of sc v)"
  by (induction sc) (auto simp: reset_other_streaks_def)

lemma keys_reset_other_streaks: "map fst (reset_other_streaks u sc) = map fst sc"
  by (induction sc) (auto simp: reset_other_streaks_def)

lemma map_of_reset_all_streaks:
  "map_of (reset_all_streaks sc) v = map_option (\<lambda>pl. pl\<lparr>streak := 0\<rparr>) (map_of sc v)"
  by (induction sc) (auto simp: reset_all_streaks_def)

lemma points_of_reset_all: "points_of (reset_all_streaks sc) v = points_of sc v"
  by (simp add: points_of_def map_of_reset_all_streaks split: option.splits)

lemma streak_of_reset_all: "streak_of (reset_all_streaks sc) v = 0"
  by (simp add: streak_of_def map_of_reset_all_streaks split: option.splits)

lemma points_earned_eq:
  "points_earned e (s + 1) = 100 + \<lfloor>50 * max 0 ((20 - e) / 20)\<rfloor> + s * 10"
proof -
  have "(0::rat) \<le> 50 * max 0 ((20 - e) / 20)" by simp
  then show ?thesis
    by (simp add: points_earned_def speed_bonus_def time_bonus_factor_def py_trunc_def
        DEFAULT_TIMEOUT_PER_Q_def POINTS_CORRECT_def POINTS_PER_SECOND_SPEED_BONUS_MAX_def
        STREAK_BONUS_PER_LEVEL_def)
qed

lemma handle_text_answer_accept:
  assumes "quizzes g = Some q" "active q" "first_answerer_id q = None"
    and "q_start_time q = Some start" "start \<noteq> 0"
    and "current_question_details q = Some d" "scores q = Some sc"
    and "py_int rt (strip rt txt) = Some (answer d)"
  shows "handle_text_answer rt quizzes g u name txt now =
           Inr (quizzes(g \<mapsto> set_event (q\<lparr>first_answerer_id := Some u,
                                         scores := Some (accepted_scores sc u name (now - start))\<rparr>)),
                [CorrectAnswer name (answer d) (points_earned (now - start) (streak_of sc u + 1))
                   (points_of sc u + points_earned (now - start) (streak_of sc u + 1))])"
proof (cases "map_of sc u")
  case None
  with assms show ?thesis
    by (simp add: handle_text_answer_def no_start_time_def accepted_scores_def
        points_of_def streak_of_def Let_def)
next
  case (Some pl)
  have entry: "pl\<lparr>username := name, streak := streak pl + 1, points := points pl + x\<rparr> =
        \<lparr>points = points pl + x, streak = streak pl + 1, username = name\<rparr>" for x
    by (cases pl) simp
  from Some assms show ?thesis
    by (simp add: entry handle_text_answer_def no_start_time_def accepted_scores_def
        points_of_def streak_of_def Let_def)
qed

lemma points_of_accepted:
  "points_of (accepted_scores sc u name e) v =
     (if v = u then points_of sc u + points_earned e (streak_of sc u + 1) else points_of sc v)"
  by (simp add: accepted_scores_def points_of_def map_of_reset_other_streaks update_conv'
      split: option.splits)

lemma streak_of_accepted:
  "streak_of (accepted_scores sc u name e) v = (if v = u then streak_of sc u + 1 else 0)"
  by (simp add: accepted_scores_def streak_of_def map_of_reset_other_streaks update_conv'
      split: option.splits)

lemma set_event_fields:
  "first_answerer_id (set_event q) = first_answerer_id q" "scores (set_event q) = scores q"
  "active (set_event q) = active q" "q_start_time (set_event q) = q_start_time q"
  "current_q_index (set_event q) = current_q_index q"
  "current_question_details (set_event q) = current_question_details q"
  "questions_data (set_event q) = questions_data q"
  by (simp_all add: set_event_def)

text \<open>
  Claim C2, as stated, with \<open>round\<close>: it fails. Five seconds into round 0 of the session
  of chat 1, a correct answer of a new player earns 137 points, the speed bonus 37.5
  being truncated, where the rounded bonus gives 138.
\<close>

theorem speed_bonus_rounded_counterexample:
  "handle_text_answer demo_runtime (Map.empty(1 \<mapsto> round0_quiz)) 1 42 ''Ann'' (ascii ''3'') 1005 =
     Inr (Map.empty(1 \<mapsto> set_event (round0_quiz\<lparr>first_answerer_id := Some 42,
            scores := Some [(42, \<lparr>points = 137, streak = 1, username = ''Ann''\<rparr>)]\<rparr>)),
          [CorrectAnswer ''Ann'' 3 137 137])
   \<and> spec_points_earned (1005 - 1000) 0 = 138"
proof
  have "points_earned 5 (0 + 1) = 137"
    unfolding points_earned_eq by (simp add: floor_eq_iff)
  then show "handle_text_answer demo_runtime (Map.empty(1 \<mapsto> round0_quiz)) 1 42 ''Ann'' (ascii ''3'') 1005 =
     Inr (Map.empty(1 \<mapsto> set_event (round0_quiz\<lparr>first_answerer_id := Some 42,
            scores := Some [(42, \<lparr>points = 137, streak = 1, username = ''Ann''\<rparr>)]\<rparr>)),
          [CorrectAnswer ''Ann'' 3 137 137])"
    by (simp add: handle_text_answer_accept [where q = round0_quiz and start = 1000
          and d = easy_question and sc = "[]"] round0_fields py_int_3 accepted_scores_def
        points_of_def streak_of_def reset_other_streaks_def)
  show "spec_points_earned (1005 - 1000) 0 = 138"
    by (simp add: spec_points_earned_def round_def floor_eq_iff)
qed

text \<open>
  Claim C2, amended: the speed bonus is truncated, not rounded. When the answer handler
  accepts a correct answer \<open>now - start\<close> seconds into the round from a player with prior
  streak \<open>s\<close>, the points announced and added are
  \<open>100 + \<lfloor>50 * max 0 ((20 - (now - start)) / 20)\<rfloor> + s * 10\<close> and the player's streak becomes
  \<open>s + 1\<close>.
\<close>

theorem correct_answer_points:
  assumes "quizzes g = Some q" "active q" "first_answerer_id q = None"
    and "q_start_time q = Some start" "start \<noteq> 0"
    and "current_question_details q = Some d" "scores q = Some sc"
    and "py_int rt (strip rt txt) = Some (answer d)"
  shows "\<exists>quizzes' q' sc'.
           handle_text_answer rt quizzes g u name txt now =
             Inr (quizzes',
                  [CorrectAnswer name (answer d)
                     (100 + \<lfloor>50 * max 0 ((20 - (now - start)) / 20)\<rfloor> + streak_of sc u * 10)
                     (points_of sc' u)])
           \<and> quizzes' g = Some q' \<and> scores q' = Some sc'
           \<and> points_of sc' u =
               points_of sc u
                 + (100 + \<lfloor>50 * max 0 ((20 - (now - start)) / 20)\<rfloor> + streak_of sc u * 10)
           \<and> streak_of sc' u = streak_of sc u + 1"
  using assms
  by (simp add: handle_text_answer_accept points_earned_eq points_of_accepted
      streak_of_accepted set_event_fields)

text \<open>
  At elapsed time 0 and streak 0: a new player who answers at the very start of round 0
  earns 150 points and has streak 1.
\<close>

theorem correct_answer_points_witness:
  "\<exists>quizzes' q' sc'.
     handle_text_answer demo_runtime (Map.empty(1 \<mapsto> round0_quiz)) 1 42 ''Ann'' (ascii ''3'') 1000 =
       Inr (quizzes', [CorrectAnswer ''Ann'' 3 150 150])
     \<and> quizzes' 1 = Some q' \<and> scores q' = Some sc'
     \<and> points_of sc' 42 = 150 \<and> streak_of sc' 42 = 1"
  using correct_answer_points [of "Map.empty(1 \<mapsto> round0_quiz)" 1 round0_quiz 1000
      easy_question "[]" demo_runtime "ascii ''3''" 42 "''Ann''" 1000]
  by (simp add: round0_fields py_int_3 points_of_Nil streak_of_Nil) metis

subsection \<open>Answers that do not count\<close>

text \<open>
  Claim C3: an answer that does not parse as an integer, or that parses to a value other
  than the current question's answer, is ignored: the handler returns the registry as it
  was, so it neither locks the round nor touches any score, and it sends nothing. This
  holds for every text, of any code points, and whatever the interpreter's Unicode
  database and digit limit are.
\<close>

theorem wrong_answer_ignored:
  assumes "py_int rt (strip rt txt) = None
           \<or> (\<exists>q d. quizzes g = Some q \<and> current_question_details q = Some d
                     \<and> py_int rt (strip rt txt) \<noteq> Some (answer d))"
  shows "handle_text_answer rt quizzes g u name txt now = Inr (quizzes, [])"
  using assms
  by (auto simp: handle_text_answer_def split: option.splits)

text \<open>
  In round 0 of the session of chat 1, whose answer is 3: the texts \<^verbatim>\<open>abc\<close> and
  \<^verbatim>\<open>4\<close>, and \<^verbatim>\<open>4\<close> after a no-break space.
\<close>

theorem wrong_answer_ignored_witness:
  "handle_text_answer demo_runtime (Map.empty(1 \<mapsto> round0_quiz)) 1 42 ''Ann''
     (ascii ''abc'') 1005 = Inr (Map.empty(1 \<mapsto> round0_quiz), [])
   \<and> handle_text_answer demo_runtime (Map.empty(1 \<mapsto> round0_quiz)) 1 42 ''Ann''
       (ascii ''4'') 1005 = Inr (Map.empty(1 \<mapsto> round0_quiz), [])
   \<and> handle_text_answer demo_runtime (Map.empty(1 \<mapsto> round0_quiz)) 1 42 ''Ann''
       [160, 52] 1005 = Inr (Map.empty(1 \<mapsto> round0_quiz), [])"
  using wrong_answer_ignored [of demo_runtime "ascii ''abc''" "Map.empty(1 \<mapsto> round0_quiz)"
      1 42 "''Ann''" 1005]
    wrong_answer_ignored [of demo_runtime "ascii ''4''" "Map.empty(1 \<mapsto> round0_quiz)"
      1 42 "''Ann''" 1005]
    wrong_answer_ignored [of demo_runtime "[160, 52]" "Map.empty(1 \<mapsto> round0_quiz)"
      1 42 "''Ann''" 1005]
  by (simp add: py_int_abc py_int_4 py_int_beyond_ascii round0_fields)

text \<open>
  A no-break space before the digit changes nothing: \<^verbatim>\<open>strip\<close> removes it, so with
  \<^verbatim>\<open>4\<close> the answer is wrong and ignored, as above, and with \<^verbatim>\<open>3\<close> it is the
  correct answer and is scored.
\<close>

lemma nbsp_correct_answer_scored:
  "handle_text_answer demo_runtime (Map.empty(1 \<mapsto> round0_quiz)) 1 42 ''Ann'' [160, 51] 1021 =
     Inr (Map.empty(1 \<mapsto> set_event (round0_quiz\<lparr>first_answerer_id := Some 42,
            scores := Some [(42, \<lparr>points = 100, streak = 1, username = ''Ann''\<rparr>)]\<rparr>)),
          [CorrectAnswer ''Ann'' 3 100 100])"
  using points_earned_eq [of 21 0]
  by (simp add: handle_text_answer_accept [where q = round0_quiz and start = 1000
        and d = easy_question and sc = "[]"] round0_fields py_int_beyond_ascii
      accepted_scores_def points_of_def streak_of_def reset_other_streaks_def)

subsection \<open>The first correct answer\<close>

text \<open>
  Claim C4: when the handler accepts the first correct answer of a round, from user
  \<open>u\<close>, the session's first answerer is \<open>u\<close>, the streak of \<open>u\<close> is one more than before,
  the points of \<open>u\<close> are those before plus the points earned, every other player has
  streak 0 and the points they had, and the players with a score are those before and
  \<open>u\<close>.
\<close>

theorem first_correct_answer_effect:
  assumes "quizzes g = Some q" "active q" "first_answerer_id q = None"
    and "q_start_time q = Some start" "start \<noteq> 0"
    and "current_question_details q = Some d" "scores q = Some sc"
    and "py_int rt (strip rt txt) = Some (answer d)"
  shows "\<exists>quizzes' q' sc' out.
           handle_text_answer rt quizzes g u name txt now = Inr (quizzes', out)
           \<and> quizzes' g = Some q' \<and> first_answerer_id q' = Some u \<and> scores q' = Some sc'
           \<and> streak_of sc' u = streak_of sc u + 1
           \<and> points_of sc' u =
               points_of sc u + points_earned (now - start) (streak_of sc u + 1)
           \<and> (\<forall>v. v \<noteq> u \<longrightarrow> streak_of sc' v = 0 \<and> points_of sc' v = points_of sc v)
           \<and> fst ` set sc' = insert u (fst ` set sc)"
proof -
  have "fst ` set (accepted_scores sc u name (now - start)) = insert u (fst ` set sc)"
    using keys_reset_other_streaks [of u "AList.update u x sc" for x]
    by (metis accepted_scores_def dom_update insert_is_Un list.set_map)
  with assms show ?thesis
    by (simp add: handle_text_answer_accept points_of_accepted streak_of_accepted
        set_event_fields)
qed

lemma round1_fields:
  "active round1_quiz" "first_answerer_id round1_quiz = None"
  "q_start_time round1_quiz = Some 2000" "current_q_index round1_quiz = Some 1"
  "current_question_details round1_quiz = Some easy_question"
  "scores round1_quiz = Some [(7, \<lparr>points = 250, streak = 2, username = ''Bob''\<rparr>)]"
  by (simp_all add: round1_quiz_def round0_quiz_def active_quiz_def)

text \<open>
  In round 1, where Bob has 250 points and a streak of 2, Ann answers after 10 seconds:
  she has 125 points and streak 1, Bob keeps his points and loses his streak.
\<close>

theorem first_correct_answer_effect_witness:
  "\<exists>quizzes' q' sc' out.
     handle_text_answer demo_runtime (Map.empty(1 \<mapsto> round1_quiz)) 1 42 ''Ann'' (ascii ''3'') 2010 =
       Inr (quizzes', out)
     \<and> quizzes' 1 = Some q' \<and> first_answerer_id q' = Some 42 \<and> scores q' = Some sc'
     \<and> streak_of sc' 42 = 1 \<and> points_of sc' 42 = 125
     \<and> streak_of sc' 7 = 0 \<and> points_of sc' 7 = 250
     \<and> fst ` set sc' = {42, 7}"
proof -
  have earned: "points_earned 10 (0 + 1) = 125"
    unfolding points_earned_eq by simp
  have prior: "streak_of [(7, \<lparr>points = 250, streak = 2, username = ''Bob''\<rparr>)] 42 = 0"
    "points_of [(7, \<lparr>points = 250, streak = 2, username = ''Bob''\<rparr>)] 42 = 0"
    "points_of [(7, \<lparr>points = 250, streak = 2, username = ''Bob''\<rparr>)] 7 = 250"
    by (simp_all add: streak_of_def points_of_def)
  from first_correct_answer_effect [of "Map.empty(1 \<mapsto> round1_quiz)" 1 round1_quiz 2000
      easy_question "[(7, \<lparr>points = 250, streak = 2, username = ''Bob''\<rparr>)]" demo_runtime
      "ascii ''3''" 42 "''Ann''" 2010]
  obtain quizzes' q' sc' out where
    "handle_text_answer demo_runtime (Map.empty(1 \<mapsto> round1_quiz)) 1 42 ''Ann'' (ascii ''3'') 2010 =
       Inr (quizzes', out)"
    "quizzes' 1 = Some q'" "first_answerer_id q' = Some 42" "scores q' = Some sc'"
    "streak_of sc' 42 = 1" "points_of sc' 42 = 125"
    "\<forall>v. v \<noteq> 42 \<longrightarrow> streak_of sc' v = 0
            \<and> points_of sc' v = points_of [(7, \<lparr>points = 250, streak = 2, username = ''Bob''\<rparr>)] v"
    "fst ` set sc' = {42, 7}"
    using earned by (auto simp: round1_fields round0_fields py_int_3 prior)
  moreover from this have "streak_of sc' 7 = 0 \<and> points_of sc' 7 = 250"
    by (simp add: prior)
  ultimately show ?thesis by blast
qed

subsection \<open>Timeout and answer\<close>

lemma end_question_by_timeout_fires:
  assumes "quizzes g = Some q" "active q" "current_q_index q = Some i"
    and "first_answerer_id q = None"
    and "current_question_details q = Some d" "scores q = Some sc"
  shows "end_question_by_timeout quizzes g i =
           Inr (quizzes(g \<mapsto> set_event (q\<lparr>scores := Some (reset_all_streaks sc)\<rparr>)),
                [TimesUp (answer d)])"
  using assms by (simp add: end_question_by_timeout_def)

lemma answer_ignored_after_reset:
  assumes "loop_round_reset quizzes g n j = Inr (quizzes', out)"
    and "quizzes g = Some q" "active q"
  shows "handle_text_answer rt quizzes' g u name txt now = Inr (quizzes', [])"
  using assms
  by (auto simp: loop_round_reset_def handle_text_answer_def no_start_time_def
      split: option.splits if_splits)

text \<open>
  Claim C9: the timeout of the current round leaves \<open>first_answerer_id\<close> unset and the
  start time in place, so a correct answer that comes after it is accepted: it is
  announced and scored, with streak 1 since the timeout reset the streaks, and it locks
  the round. Once the loop has reset the round state for a next question, the same answer
  is ignored.
\<close>

theorem answer_accepted_after_timeout:
  assumes "quizzes g = Some q" "active q" "current_q_index q = Some i"
    and "first_answerer_id q = None" "q_start_time q = Some start" "start \<noteq> 0"
    and "current_question_details q = Some d" "scores q = Some sc"
    and "py_int rt (strip rt txt) = Some (answer d)"
  shows "\<exists>quizzes1 quizzes2 q2 sc2.
           end_question_by_timeout quizzes g i = Inr (quizzes1, [TimesUp (answer d)])
           \<and> handle_text_answer rt quizzes1 g u name txt now =
               Inr (quizzes2,
                    [CorrectAnswer name (answer d) (points_earned (now - start) 1)
                       (points_of sc u + points_earned (now - start) 1)])
           \<and> quizzes2 g = Some q2 \<and> first_answerer_id q2 = Some u \<and> scores q2 = Some sc2
           \<and> streak_of sc2 u = 1
           \<and> points_of sc2 u = points_of sc u + points_earned (now - start) 1
           \<and> (\<forall>n j quizzes3 out.
                 loop_round_reset quizzes1 g n j = Inr (quizzes3, out) \<longrightarrow>
                 handle_text_answer rt quizzes3 g u name txt now = Inr (quizzes3, []))"
proof -
  let ?q1 = "set_event (q\<lparr>scores := Some (reset_all_streaks sc)\<rparr>)"
  let ?quizzes1 = "quizzes(g \<mapsto> ?q1)"
  have fired: "end_question_by_timeout quizzes g i = Inr (?quizzes1, [TimesUp (answer d)])"
    using assms by (simp add: end_question_by_timeout_fires)
  have q1: "?quizzes1 g = Some ?q1" "active ?q1" "first_answerer_id ?q1 = None"
    "q_start_time ?q1 = Some start" "current_question_details ?q1 = Some d"
    "scores ?q1 = Some (reset_all_streaks sc)"
    using assms by (simp_all add: set_event_fields)
  have accepted:
    "handle_text_answer rt ?quizzes1 g u name txt now =
       Inr (?quizzes1(g \<mapsto> set_event (?q1\<lparr>first_answerer_id := Some u,
              scores := Some (accepted_scores (reset_all_streaks sc) u name (now - start))\<rparr>)),
            [CorrectAnswer name (answer d) (points_earned (now - start) 1)
               (points_of sc u + points_earned (now - start) 1)])"
    using handle_text_answer_accept [of "?quizzes1" "g" "?q1" "start" "d" "reset_all_streaks sc"
        "rt" "txt" "u" "name" "now"] q1 assms(6) assms(9)
    by (simp add: streak_of_reset_all points_of_reset_all)
  have ignored: "handle_text_answer rt quizzes3 g u name txt now = Inr (quizzes3, [])"
    if "loop_round_reset ?quizzes1 g n j = Inr (quizzes3, out)" for n j quizzes3 out
    using that q1(1) q1(2) by (rule answer_ignored_after_reset)
  show ?thesis
    using fired accepted ignored
    by (simp add: set_event_fields points_of_accepted streak_of_accepted
        streak_of_reset_all points_of_reset_all) blast
qed

lemma points_earned_late: "points_earned 21 1 = 100"
  using points_earned_eq [of 21 0] by simp

lemma timeout_round0:
  "end_question_by_timeout (Map.empty(1 \<mapsto> round0_quiz)) 1 0 =
     Inr (Map.empty(1 \<mapsto> timed_out_quiz), [TimesUp 3])"
  by (simp add: end_question_by_timeout_fires [where q = round0_quiz and d = easy_question
        and sc = "[]"] round0_fields reset_all_streaks_def set_event_def timed_out_quiz_def
      round0_quiz_def active_quiz_def)

lemma timed_out_fields:
  "active timed_out_quiz" "first_answerer_id timed_out_quiz = None"
  "q_start_time timed_out_quiz = Some 1000" "current_q_index timed_out_quiz = Some 0"
  "current_question_details timed_out_quiz = Some easy_question"
  "scores timed_out_quiz = Some []"
  "questions_data timed_out_quiz = Some (replicate 5 easy_question)"
  by (simp_all add: timed_out_quiz_def round0_quiz_def active_quiz_def)

text \<open>
  In round 0 of the session of chat 1 the timeout fires, and Ann's answer \<^verbatim>\<open>3\<close>, 21
  seconds after the question, is still accepted; after the reset for round 1 it is not.
\<close>

theorem answer_accepted_after_timeout_witness:
  "\<exists>quizzes1 quizzes2 q2 sc2.
     end_question_by_timeout (Map.empty(1 \<mapsto> round0_quiz)) 1 0 = Inr (quizzes1, [TimesUp 3])
     \<and> handle_text_answer demo_runtime quizzes1 1 42 ''Ann'' (ascii ''3'') 1021 =
         Inr (quizzes2, [CorrectAnswer ''Ann'' 3 100 100])
     \<and> quizzes2 1 = Some q2 \<and> first_answerer_id q2 = Some 42 \<and> scores q2 = Some sc2
     \<and> streak_of sc2 42 = 1 \<and> points_of sc2 42 = 100
     \<and> (\<exists>quizzes3 out.
           loop_round_reset quizzes1 1 5 1 = Inr (quizzes3, out)
           \<and> handle_text_answer demo_runtime quizzes3 1 42 ''Ann'' (ascii ''3'') 1021 = Inr (quizzes3, []))"
proof -
  from answer_accepted_after_timeout [of "Map.empty(1 \<mapsto> round0_quiz)" "1" "round0_quiz" "0"
      "1000" "easy_question" "[]" "demo_runtime" "ascii ''3''" "42" "''Ann''" "1021"]
  obtain quizzes1 quizzes2 q2 sc2 where
    fired: "end_question_by_timeout (Map.empty(1 \<mapsto> round0_quiz)) 1 0 =
              Inr (quizzes1, [TimesUp 3])"
    and accepted: "handle_text_answer demo_runtime quizzes1 1 42 ''Ann'' (ascii ''3'') 1021 =
              Inr (quizzes2, [CorrectAnswer ''Ann'' 3 100 100])"
      "quizzes2 1 = Some q2" "first_answerer_id q2 = Some 42" "scores q2 = Some sc2"
      "streak_of sc2 42 = 1" "points_of sc2 42 = 100"
    and ignored: "\<forall>n j quizzes3 out.
              loop_round_reset quizzes1 1 n j = Inr (quizzes3, out) \<longrightarrow>
              handle_text_answer demo_runtime quizzes3 1 42 ''Ann'' (ascii ''3'') 1021 = Inr (quizzes3, [])"
    by (auto simp: round0_fields py_int_3 points_earned_late points_of_Nil)
  from fired have "quizzes1 = Map.empty(1 \<mapsto> timed_out_quiz)"
    by (simp add: timeout_round0)
  then have "\<exists>quizzes3 out. loop_round_reset quizzes1 1 5 1 = Inr (quizzes3, out)"
    by (simp add: loop_round_reset_def timed_out_fields)
  with ignored have "\<exists>quizzes3 out.
           loop_round_reset quizzes1 1 5 1 = Inr (quizzes3, out)
           \<and> handle_text_answer demo_runtime quizzes3 1 42 ''Ann'' (ascii ''3'') 1021 = Inr (quizzes3, [])"
    by blast
  with fired accepted show ?thesis by blast
qed

lemma run_timeout_eq:
  "run_timeout =
     Inr (Map.empty(1 \<mapsto> timed_out_quiz),
          [SetupPrompt ''Host'', CallbackAnswered, DifficultySet (ascii ''easy''),
           CallbackAnswered, SetupComplete (ascii ''easy'') 5, SpawnQuizLoop 1,
           QuestionPrompt 1 5 ''What is 1 + 1 + 1?'', SpawnTimeout 1 0, TimesUp 3])"
  by (simp add: run_timeout_def run_round0_eq then_do_def timeout_round0)

lemma late_answer_timed_out:
  "handle_text_answer demo_runtime (Map.empty(1 \<mapsto> timed_out_quiz)) 1 42 ''Ann'' (ascii ''3'') 1021 =
     Inr (Map.empty(1 \<mapsto> set_event (timed_out_quiz\<lparr>first_answerer_id := Some 42,
            scores := Some [(42, \<lparr>points = 100, streak = 1, username = ''Ann''\<rparr>)]\<rparr>)),
          [CorrectAnswer ''Ann'' 3 100 100])"
  by (simp add: handle_text_answer_accept [where q = timed_out_quiz and start = 1000
        and d = easy_question and sc = "[]"] timed_out_fields round0_fields py_int_3
      accepted_scores_def points_of_def streak_of_def reset_other_streaks_def
      points_earned_late)

text \<open>
  Claim C1, on the code: in round 0 of the session of chat 1, set up from the empty
  registry by the handlers themselves, the timeout fires at its time and a correct
  answer arrives one second later, before the loop has moved on. The round index is 0
  at both moments, and both the \<^verbatim>\<open>Time's up\<close> and the \<^verbatim>\<open>Correct\<close> announcement are
  sent for this one round.
\<close>

theorem timeout_then_answer_both_announced:
  "messages_of run_late_answer =
     [SetupPrompt ''Host'', CallbackAnswered, DifficultySet (ascii ''easy''),
      CallbackAnswered, SetupComplete (ascii ''easy'') 5, SpawnQuizLoop 1,
      QuestionPrompt 1 5 ''What is 1 + 1 + 1?'', SpawnTimeout 1 0,
      TimesUp 3, CorrectAnswer ''Ann'' 3 100 100]
   \<and> map_option current_q_index (registry_of run_timeout 1) = Some (Some 0)
   \<and> map_option current_q_index (registry_of run_late_answer 1) = Some (Some 0)
   \<and> map_option first_answerer_id (registry_of run_late_answer 1) = Some (Some 42)"
  by (simp add: run_late_answer_def run_timeout_eq then_do_def late_answer_timed_out
      messages_of_def registry_of_def set_event_fields timed_out_fields)

subsection \<open>Starting the setup\<close>

lemma registry_of_run_difficulty:
  "registry_of run_difficulty =
     Map.empty(1 \<mapsto> (new_quiz 10)\<lparr>setup_message_id := Some 500,
       config := \<lparr>cfg_difficulty = Some (ascii ''easy''), num_questions = None\<rparr>\<rparr>)"
  by (simp add: run_difficulty_eq registry_of_def)

lemma registry_of_run_active: "registry_of run_active = Map.empty(1 \<mapsto> active_quiz)"
  by (simp add: run_active_eq registry_of_def)

text \<open>
  Claim C5, as stated: it fails. In chat 1 user 10 has started the setup and picked a
  difficulty; the session is there and has not been stopped. User 20 sends the start
  command: it is not rejected, and the session is replaced by a new one, hosted by user
  20, with the difficulty gone.
\<close>

theorem setup_replaced_counterexample:
  "map_option status (registry_of run_difficulty 1) = Some ''configuring''
   \<and> map_option host_id (registry_of run_difficulty 1) = Some 10
   \<and> map_option (cfg_difficulty \<circ> config) (registry_of run_difficulty 1) = Some (Some (ascii ''easy''))
   \<and> snd (quiz_command (registry_of run_difficulty) 1 20 ''Eve'' 501) = [SetupPrompt ''Eve'']
   \<and> map_option host_id (fst (quiz_command (registry_of run_difficulty) 1 20 ''Eve'' 501) 1)
       = Some 20
   \<and> map_option (cfg_difficulty \<circ> config)
         (fst (quiz_command (registry_of run_difficulty) 1 20 ''Eve'' 501) 1) = Some None"
  by (simp add: registry_of_run_difficulty quiz_command_def new_quiz_def)

text \<open>
  Claim C5, amended: the registry holds at most one session per chat, being a map. The
  start command is rejected, and the registry left as it is, when the chat has a session
  whose \<open>active\<close> flag is set. In every other case, also when a session is still being
  configured, it puts a new configuring session, hosted by the caller and not active, in
  the place of whatever the chat had, and leaves the other chats alone.
\<close>

theorem quiz_command_cases:
  "((\<exists>q. quizzes g = Some q \<and> active q) \<longrightarrow>
      quiz_command quizzes g u name m = (quizzes, [AlreadyRunning]))
   \<and> (\<not> (\<exists>q. quizzes g = Some q \<and> active q) \<longrightarrow>
        (\<exists>quizzes' q'.
           quiz_command quizzes g u name m = (quizzes', [SetupPrompt name])
           \<and> quizzes' g = Some q' \<and> status q' = ''configuring'' \<and> host_id q' = u
           \<and> \<not> active q' \<and> config q' = \<lparr>cfg_difficulty = None, num_questions = None\<rparr>
           \<and> (\<forall>g'. g' \<noteq> g \<longrightarrow> quizzes' g' = quizzes g')))"
  by (auto simp: quiz_command_def new_quiz_def split: option.splits)

theorem quiz_command_cases_witness:
  "quiz_command (registry_of run_active) 1 20 ''Eve'' 501 =
     (registry_of run_active, [AlreadyRunning])
   \<and> (\<exists>quizzes' q'.
         quiz_command (registry_of run_difficulty) 1 20 ''Eve'' 501 =
           (quizzes', [SetupPrompt ''Eve''])
         \<and> quizzes' 1 = Some q' \<and> status q' = ''configuring'' \<and> host_id q' = 20
         \<and> \<not> active q' \<and> config q' = \<lparr>cfg_difficulty = None, num_questions = None\<rparr>
         \<and> (\<forall>g'. g' \<noteq> 1 \<longrightarrow> quizzes' g' = registry_of run_difficulty g'))"
proof
  have "\<exists>q. registry_of run_active 1 = Some q \<and> active q"
    by (simp add: registry_of_run_active active_quiz_def)
  with quiz_command_cases [of "registry_of run_active" "1" "20" "''Eve''" "501"]
  show "quiz_command (registry_of run_active) 1 20 ''Eve'' 501 =
          (registry_of run_active, [AlreadyRunning])"
    by blast
next
  have "\<not> (\<exists>q. registry_of run_difficulty 1 = Some q \<and> active q)"
    by (simp add: registry_of_run_difficulty new_quiz_def)
  with quiz_command_cases [of "registry_of run_difficulty" "1" "20" "''Eve''" "501"]
  show "\<exists>quizzes' q'.
         quiz_command (registry_of run_difficulty) 1 20 ''Eve'' 501 =
           (quizzes', [SetupPrompt ''Eve''])
         \<and> quizzes' 1 = Some q' \<and> status q' = ''configuring'' \<and> host_id q' = 20
         \<and> \<not> active q' \<and> config q' = \<lparr>cfg_difficulty = None, num_questions = None\<rparr>
         \<and> (\<forall>g'. g' \<noteq> 1 \<longrightarrow> quizzes' g' = registry_of run_difficulty g')"
    by blast
qed

subsection \<open>Completing the setup\<close>

lemma length_generate_questions: "length (generate_questions n dif rnd k) = n"
  by (induction n arbitrary: k) simp_all

text \<open>
  Claim C7: when the host of a configuring session whose difficulty is set chooses the
  number of questions, with callback data whose third part \<^verbatim>\<open>int\<close> reads as \<open>n\<close>, the
  handler generates the \<open>n\<close> questions at once: in the registry it returns, which is the
  one the quiz loop it spawns will find, the session is active, has exactly \<open>n\<close>
  questions and has round index \<open>-1\<close>.
\<close>

theorem questions_generated_up_front:
  assumes "quizzes g = Some q" "host_id q = u" "status q = ''configuring''"
    and "cfg_difficulty (config q) = Some dif"
    and "split_on 58 data = [p, ascii ''questions'', v]"
    and "py_int rt v = Some n" "0 \<le> n"
  shows "\<exists>quizzes' q' qs.
           handle_config_callback rt quizzes g u data rnd k =
             Inr (quizzes', [CallbackAnswered, SetupComplete dif n, SpawnQuizLoop g])
           \<and> quizzes' g = Some q' \<and> status q' = ''active'' \<and> active q'
           \<and> num_questions (config q') = Some n
           \<and> questions_data q' = Some qs \<and> int (length qs) = n
           \<and> qs = generate_questions (nat n) dif rnd k
           \<and> current_q_index q' = Some (- 1)
           \<and> current_question_details q' = current_question_details q"
  using assms
  by (simp add: handle_config_callback_def length_generate_questions ascii_eq_iff)

theorem questions_generated_up_front_witness:
  "\<exists>quizzes' q' qs.
     handle_config_callback demo_runtime (registry_of run_difficulty) 1 10
         (ascii ''config:questions:5'') rnd0 0 =
       Inr (quizzes', [CallbackAnswered, SetupComplete (ascii ''easy'') 5, SpawnQuizLoop 1])
     \<and> quizzes' 1 = Some q' \<and> status q' = ''active'' \<and> active q'
     \<and> num_questions (config q') = Some 5
     \<and> questions_data q' = Some qs \<and> int (length qs) = 5
     \<and> qs = replicate 5 easy_question
     \<and> current_q_index q' = Some (- 1)
     \<and> current_question_details q' = None"
  using questions_generated_up_front [of "registry_of run_difficulty" "1"
      "(new_quiz 10)\<lparr>setup_message_id := Some 500,
         config := \<lparr>cfg_difficulty = Some (ascii ''easy''), num_questions = None\<rparr>\<rparr>"
      "10" "ascii ''easy''" "ascii ''config:questions:5''" "ascii ''config''" "ascii ''5''"
      "demo_runtime" "5" "rnd0" "0"]
  by (simp add: registry_of_run_difficulty new_quiz_def split_questions_5 py_int_5
      generate_questions_easy)

text \<open>
  \<^verbatim>\<open>int\<close> does not take the separator 28 for whitespace: with it before the number the
  handler raises \<open>ValueError\<close> and the session stays as it was.
\<close>

lemma questions_count_unreadable:
  "handle_config_callback demo_runtime (registry_of run_difficulty) 1 10
     (ascii ''config:questions:'' @ [28, 53]) rnd0 0 = Inl ValueError"
  by (simp add: handle_config_callback_def registry_of_run_difficulty new_quiz_def ascii_def
      py_int_separator)

subsection \<open>The leaderboard without scores\<close>

lemma registry_of_run_timeout: "registry_of run_timeout = Map.empty(1 \<mapsto> timed_out_quiz)"
  by (simp add: run_timeout_eq registry_of_def)

text \<open>
  Claim C8, on the code: round 0 of the session of chat 1 has timed out and nobody has
  scored. The leaderboard between the rounds sends nothing at all, no placeholder either:
  the loop's segment after the round sends the notice of the next question only. The final
  leaderboard does send a placeholder.
\<close>

theorem mid_quiz_leaderboard_silent:
  "map_option scores (registry_of run_timeout 1) = Some (Some [])
   \<and> show_leaderboard (registry_of run_timeout) 1 True False r = []
   \<and> loop_after_wait (registry_of run_timeout) 1 5 0 r = [NextQuestionSoon]
   \<and> show_leaderboard (registry_of run_timeout) 1 False True r = [NoScoresRecorded]"
  by (simp add: registry_of_run_timeout show_leaderboard_def loop_after_wait_def
      timed_out_fields)

subsection \<open>Stopping in a private chat\<close>

text \<open>
  Claim C10: in a private chat the admin check holds whatever the platform says about the
  member, so the stop command of any user, host or not, stops the session of the chat:
  the stop is announced and the session is removed.
\<close>

theorem private_chat_anyone_stops:
  "is_admin ''private'' member
   \<and> (quizzes g = Some q \<longrightarrow>
        (\<exists>out. stop_quiz quizzes g u name ''private'' member r =
                  (quizzes(g := None), QuizStopped name # out)))"
  by (simp add: is_admin_def stop_quiz_def Let_def)

theorem private_chat_anyone_stops_witness:
  "is_admin ''private'' None
   \<and> host_id round0_quiz \<noteq> 99
   \<and> stop_quiz (Map.empty(1 \<mapsto> round0_quiz)) 1 99 ''Eve'' ''private'' None 0 =
       (Map.empty, [QuizStopped ''Eve''])"
proof -
  have "host_id round0_quiz \<noteq> 99"
    by (simp add: round0_quiz_def active_quiz_def)
  moreover have "stop_quiz (Map.empty(1 \<mapsto> round0_quiz)) 1 99 ''Eve'' ''private'' None 0 =
       (Map.empty, [QuizStopped ''Eve''])"
    using private_chat_anyone_stops [of None "Map.empty(1 \<mapsto> round0_quiz)" "1"
        "round0_quiz" "99" "''Eve''" "0"]
    by (auto simp: stop_quiz_def Let_def no_scores_def set_event_def round0_fields)
  ultimately show ?thesis
    using private_chat_anyone_stops [of None "Map.empty(1 \<mapsto> round0_quiz)" "1"
        "round0_quiz" "99" "''Eve''" "0"]
    by simp
qed

subsection \<open>The ranking\<close>

lemma sorted_reverse_descending:
  "sorted_wrt (\<lambda>a b. key b \<le> key a) (sorted_reverse key xs)"
proof -
  have "sorted (map (\<lambda>x. - key x) (sort_key (\<lambda>x. - key x) xs))"
    by (rule sorted_sort_key)
  then show ?thesis
    by (simp add: sorted_reverse_def sorted_map)
qed

lemma sorted_reverse_stable:
  "filter (\<lambda>x. key x = k) (sorted_reverse key xs) = filter (\<lambda>x. key x = k) xs"
  using sort_key_stable [of "\<lambda>x. - key x" "- k" xs]
  by (simp add: sorted_reverse_def)

lemma mset_sorted_reverse: "mset (sorted_reverse key xs) = mset xs"
  by (simp add: sorted_reverse_def)

lemma length_leaderboard_rows: "length (leaderboard_rows ys) = min 10 (length ys)"
  by (simp add: leaderboard_rows_def min.commute)

lemma nth_leaderboard_rows:
  assumes "i < length (leaderboard_rows ys)"
  shows "leaderboard_rows ys ! i =
           (Suc i, username (snd (ys ! i)), points (snd (ys ! i)),
            if 1 < streak (snd (ys ! i)) then Some (streak (snd (ys ! i))) else None)"
proof -
  from assms have "i < length (take 10 ys)"
    by (simp add: leaderboard_rows_def)
  then show ?thesis
    by (simp add: leaderboard_rows_def nth_enumerate_eq split: prod.splits)
qed

text \<open>
  Claim C6: for a session with scores \<open>sc\<close>, not empty, the first message of the
  leaderboard lists rows taken from an ordering \<open>full\<close> of the entries of \<open>sc\<close> that is
  descending in points and keeps, among the entries of any one number of points, the
  order they have in \<open>sc\<close>, their insertion order. The rows are the first ten entries of
  \<open>full\<close>, or all of them when there are fewer, each with its rank from 1 on.
\<close>

theorem leaderboard_ranking:
  assumes "quizzes g = Some q" "scores q = Some sc" "sc \<noteq> []"
  shows "\<exists>full rows rest.
           show_leaderboard quizzes g mid final r = Leaderboard mid rows False # rest
           \<and> mset full = mset sc
           \<and> sorted_wrt (\<lambda>a b. points (snd b) \<le> points (snd a)) full
           \<and> (\<forall>k. filter (\<lambda>e. points (snd e) = k) full = filter (\<lambda>e. points (snd e) = k) sc)
           \<and> length rows = min 10 (length sc)
           \<and> (\<forall>i<length rows.
                 rows ! i =
                   (Suc i, username (snd (full ! i)), points (snd (full ! i)),
                    if 1 < streak (snd (full ! i)) then Some (streak (snd (full ! i)))
                    else None))"
proof -
  let ?full = "sorted_reverse (\<lambda>item. points (snd item)) sc"
  from assms(3) have nonempty: "?full \<noteq> []"
    using mset_sorted_reverse [of "\<lambda>item. points (snd item)" sc] by force
  have "length ?full = length sc"
    by (simp add: sorted_reverse_def)
  then have len: "length (leaderboard_rows ?full) = min 10 (length sc)"
    by (simp add: length_leaderboard_rows)
  have shown: "\<exists>rest. show_leaderboard quizzes g mid final r =
                        Leaderboard mid (leaderboard_rows ?full) False # rest"
    using assms nonempty by (simp add: show_leaderboard_def Let_def)
  show ?thesis
    using shown len mset_sorted_reverse [of "\<lambda>item. points (snd item)" sc]
      sorted_reverse_descending [of "\<lambda>item. points (snd item)" sc]
      sorted_reverse_stable [of "\<lambda>item. points (snd item)" _ sc]
      nth_leaderboard_rows [of _ ?full]
    by blast
qed

text \<open>With the scores \<^verbatim>\<open>{A: 300, B: 300, C: 100}\<close> the ranking is A, B, C.\<close>

theorem leaderboard_ranking_witness:
  "show_leaderboard (Map.empty(1 \<mapsto> podium_quiz)) 1 True False 0 =
     [Leaderboard True [(1, ''A'', 300, None), (2, ''B'', 300, None), (3, ''C'', 100, None)]
        False]
   \<and> (\<exists>full rows rest.
         show_leaderboard (Map.empty(1 \<mapsto> podium_quiz)) 1 True False 0 =
           Leaderboard True rows False # rest
         \<and> mset full = mset podium_scores
         \<and> sorted_wrt (\<lambda>a b. points (snd b) \<le> points (snd a)) full
         \<and> (\<forall>k. filter (\<lambda>e. points (snd e) = k) full =
                  filter (\<lambda>e. points (snd e) = k) podium_scores)
         \<and> length rows = min 10 (length podium_scores)
         \<and> (\<forall>i<length rows.
               rows ! i =
                 (Suc i, username (snd (full ! i)), points (snd (full ! i)),
                  if 1 < streak (snd (full ! i)) then Some (streak (snd (full ! i)))
                  else None)))"
proof
  show "show_leaderboard (Map.empty(1 \<mapsto> podium_quiz)) 1 True False 0 =
     [Leaderboard True [(1, ''A'', 300, None), (2, ''B'', 300, None), (3, ''C'', 100, None)]
        False]"
    by (simp add: show_leaderboard_def podium_quiz_def podium_scores_def sorted_reverse_def
        leaderboard_rows_def List.enumerate_eq_zip upt_rec)
next
  have "scores podium_quiz = Some podium_scores" "podium_scores \<noteq> []"
    by (simp_all add: podium_quiz_def podium_scores_def)
  then show "\<exists>full rows rest.
         show_leaderboard (Map.empty(1 \<mapsto> podium_quiz)) 1 True False 0 =
           Leaderboard True rows False # rest
         \<and> mset full = mset podium_scores
         \<and> sorted_wrt (\<lambda>a b. points (snd b) \<le> points (snd a)) full
         \<and> (\<forall>k. filter (\<lambda>e. points (snd e) = k) full =
                  filter (\<lambda>e. points (snd e) = k) podium_scores)
         \<and> length rows = min 10 (length podium_scores)
         \<and> (\<forall>i<length rows.
               rows ! i =
                 (Suc i, username (snd (full ! i)), points (snd (full ! i)),
                  if 1 < streak (snd (full ! i)) then Some (streak (snd (full ! i)))
                  else None))"
    using leaderboard_ranking [of "Map.empty(1 \<mapsto> podium_quiz)" "1" "podium_quiz"
        "podium_scores" "True" "False" "0"]
    by simp
qed

end
